theory Spec2Isabelle
  imports Main
begin

section \<open>Data model\<close>

text \<open>
  The exceptions the stream code can let escape. \<open>ValueError\<close> is the one raised with
  "I/O operation on closed stream." (the closed-stream error), \<open>UnsupportedOperation\<close> is
  \<open>io.UnsupportedOperation\<close>, \<open>StopIteration\<close> ends an iteration. \<open>AttributeError\<close> is what
  Python raises when \<open>_row_iterator\<close> was never assigned, \<open>ProgrammingError\<close> what sqlite3
  raises for a statement on a closed connection.
\<close>

datatype error =
  ValueError | UnsupportedOperation | StopIteration | AttributeError | ProgrammingError

text \<open>A fetched row: the pair of its \<open>'id'\<close> and its \<open>'content'\<close>.\<close>

type_synonym row = "int \<times> string"

text \<open>
  The object state of \<open>DatabaseStream\<close>. \<open>row_iterator\<close> is \<open>None\<close> while the attribute
  has never been assigned, and otherwise holds the rows the list iterator has not yet
  produced. \<open>backend\<close> is whatever the subclass owns (connection, cursor, the store behind
  them).
\<close>

record 'b stream =
  table_name :: string
  mode :: string
  session_ts :: nat
  hostname :: string
  pid :: int
  closed :: bool
  row_iterator :: "row list option"
  backend :: 'b

text \<open>
  The methods a subclass supplies. Each one reads the stream object and gives back its
  outcome together with the new subclass-owned state.
\<close>

record 'b adapter =
  db_connect :: "'b stream \<Rightarrow> (error + unit) \<times> 'b"
  db_close :: "'b stream \<Rightarrow> (error + unit) \<times> 'b"
  write_record :: "'b stream \<Rightarrow> string \<Rightarrow> (error + unit) \<times> 'b"
  fetch_unconsumed :: "'b stream \<Rightarrow> (error + row list) \<times> 'b"
  mark_consumed :: "'b stream \<Rightarrow> int \<Rightarrow> (error + unit) \<times> 'b"
  flush_hook :: "'b stream \<Rightarrow> (error + unit) \<times> 'b"

text \<open>What \<open>datetime.now()\<close>, \<open>socket.gethostname()\<close> and \<open>os.getpid()\<close> answer.\<close>

record process_env =
  now :: nat
  gethostname :: string
  getpid :: int

section \<open>DatabaseStream\<close>

text \<open>The method \<open>write\<close> is called \<open>stream_write\<close> here, and the double-underscore
  methods \<open>dunder_init\<close>, \<open>dunder_iter\<close>, \<open>dunder_next\<close>, \<open>dunder_enter\<close> and \<open>dunder_exit\<close>.\<close>

definition readable :: "'b stream \<Rightarrow> bool" where
  "readable s = (mode s = ''r'' \<and> \<not> closed s)"

definition writable :: "'b stream \<Rightarrow> bool" where
  "writable s = (mode s = ''w'' \<and> \<not> closed s)"

definition dunder_init ::
  "'b adapter \<Rightarrow> process_env \<Rightarrow> string \<Rightarrow> string \<Rightarrow> 'b \<Rightarrow> error + 'b stream" where
  "dunder_init A e tn m b0 =
     (let s0 = \<lparr>table_name = tn, mode = m, session_ts = now e, hostname = gethostname e,
                pid = getpid e, closed = False, row_iterator = None, backend = b0\<rparr>
      in case db_connect A s0 of
           (Inl err, b1) \<Rightarrow> Inl err
         | (Inr u, b1) \<Rightarrow>
             (let s1 = s0\<lparr>backend := b1\<rparr>
              in if readable s1
                 then (case fetch_unconsumed A s1 of
                         (Inl err, b2) \<Rightarrow> Inl err
                       | (Inr rows, b2) \<Rightarrow>
                           Inr (s1\<lparr>backend := b2, row_iterator := Some rows\<rparr>))
                 else Inr s1))"

definition stream_write :: "'b adapter \<Rightarrow> 'b stream \<Rightarrow> string \<Rightarrow> (error + unit) \<times> 'b stream" where
  "stream_write A s txt =
     (if closed s then (Inl ValueError, s)
      else if \<not> writable s then (Inl UnsupportedOperation, s)
      else (case write_record A s txt of (r, b) \<Rightarrow> (r, s\<lparr>backend := b\<rparr>)))"

definition flush :: "'b adapter \<Rightarrow> 'b stream \<Rightarrow> (error + unit) \<times> 'b stream" where
  "flush A s =
     (if closed s then (Inl ValueError, s)
      else (case flush_hook A s of (r, b) \<Rightarrow> (r, s\<lparr>backend := b\<rparr>)))"

text \<open>
  The \<open>for row in self._row_iterator\<close> loop of \<open>read\<close>: the list argument is what the
  iterator still holds. Fetching the next row advances the iterator before the row is
  marked, so an error of \<open>_mark_consumed\<close> leaves the iterator past that row.
\<close>

fun read_rows ::
  "'b adapter \<Rightarrow> int \<Rightarrow> row list \<Rightarrow> string list \<Rightarrow> int \<Rightarrow> 'b stream
     \<Rightarrow> (error + string) \<times> 'b stream" where
  "read_rows A sz [] chunks total_chars s = (Inr (concat chunks), s)"
| "read_rows A sz (rw # rest) chunks total_chars s =
     (let s1 = s\<lparr>row_iterator := Some rest\<rparr>
      in case mark_consumed A s1 (fst rw) of
           (Inl err, b) \<Rightarrow> (Inl err, s1\<lparr>backend := b\<rparr>)
         | (Inr u, b) \<Rightarrow>
             (let s2 = s1\<lparr>backend := b\<rparr>;
                  chunks' = chunks @ [snd rw];
                  total_chars' = total_chars + int (length (snd rw))
              in if sz \<ge> 0 \<and> total_chars' \<ge> sz then (Inr (concat chunks'), s2)
                 else read_rows A sz rest chunks' total_chars' s2))"

definition read :: "'b adapter \<Rightarrow> 'b stream \<Rightarrow> int \<Rightarrow> (error + string) \<times> 'b stream" where
  "read A s sz =
     (if closed s then (Inl ValueError, s)
      else if \<not> readable s then (Inl UnsupportedOperation, s)
      else (case row_iterator s of
              None \<Rightarrow> (Inl AttributeError, s)
            | Some rows \<Rightarrow> read_rows A sz rows [] 0 s))"

definition readline :: "'b adapter \<Rightarrow> 'b stream \<Rightarrow> int \<Rightarrow> (error + string) \<times> 'b stream" where
  "readline A s limit =
     (if closed s then (Inl ValueError, s)
      else if \<not> readable s then (Inl UnsupportedOperation, s)
      else (case row_iterator s of
              None \<Rightarrow> (Inl AttributeError, s)
            | Some [] \<Rightarrow> (Inr '''', s)
            | Some (rw # rest) \<Rightarrow>
                (let s1 = s\<lparr>row_iterator := Some rest\<rparr>
                 in case mark_consumed A s1 (fst rw) of
                      (Inl err, b) \<Rightarrow> (Inl err, s1\<lparr>backend := b\<rparr>)
                    | (Inr u, b) \<Rightarrow>
                        (Inr (if limit \<ge> 0 then take (nat limit) (snd rw) else snd rw),
                         s1\<lparr>backend := b\<rparr>))))"

fun readlines_rows ::
  "'b adapter \<Rightarrow> int \<Rightarrow> row list \<Rightarrow> string list \<Rightarrow> int \<Rightarrow> 'b stream
     \<Rightarrow> (error + string list) \<times> 'b stream" where
  "readlines_rows A hint [] lines total_chars s = (Inr lines, s)"
| "readlines_rows A hint (rw # rest) lines total_chars s =
     (let s1 = s\<lparr>row_iterator := Some rest\<rparr>
      in case mark_consumed A s1 (fst rw) of
           (Inl err, b) \<Rightarrow> (Inl err, s1\<lparr>backend := b\<rparr>)
         | (Inr u, b) \<Rightarrow>
             (let s2 = s1\<lparr>backend := b\<rparr>;
                  lines' = lines @ [snd rw];
                  total_chars' = total_chars + int (length (snd rw))
              in if 0 \<le> hint \<and> hint \<le> total_chars' then (Inr lines', s2)
                 else readlines_rows A hint rest lines' total_chars' s2))"

definition readlines ::
  "'b adapter \<Rightarrow> 'b stream \<Rightarrow> int \<Rightarrow> (error + string list) \<times> 'b stream" where
  "readlines A s hint =
     (if closed s then (Inl ValueError, s)
      else if \<not> readable s then (Inl UnsupportedOperation, s)
      else (case row_iterator s of
              None \<Rightarrow> (Inl AttributeError, s)
            | Some rows \<Rightarrow> readlines_rows A hint rows [] 0 s))"

text \<open>\<open>__iter__\<close> returns the stream itself; the model returns unit for it.\<close>

definition dunder_iter :: "'b stream \<Rightarrow> (error + unit) \<times> 'b stream" where
  "dunder_iter s =
     (if \<not> readable s then (Inl UnsupportedOperation, s) else (Inr (), s))"

definition dunder_next :: "'b adapter \<Rightarrow> 'b stream \<Rightarrow> (error + string) \<times> 'b stream" where
  "dunder_next A s =
     (if closed s then (Inl ValueError, s)
      else if \<not> readable s then (Inl UnsupportedOperation, s)
      else (case row_iterator s of
              None \<Rightarrow> (Inl AttributeError, s)
            | Some [] \<Rightarrow> (Inl StopIteration, s)
            | Some (rw # rest) \<Rightarrow>
                (let s1 = s\<lparr>row_iterator := Some rest\<rparr>
                 in case mark_consumed A s1 (fst rw) of
                      (Inl err, b) \<Rightarrow> (Inl err, s1\<lparr>backend := b\<rparr>)
                    | (Inr u, b) \<Rightarrow> (Inr (snd rw), s1\<lparr>backend := b\<rparr>))))"

definition close :: "'b adapter \<Rightarrow> 'b stream \<Rightarrow> (error + unit) \<times> 'b stream" where
  "close A s =
     (if closed s then (Inr (), s)
      else (let s1 = s\<lparr>closed := True\<rparr>
            in case db_close A s1 of (r, b) \<Rightarrow> (r, s1\<lparr>backend := b\<rparr>)))"

definition dunder_enter :: "'b stream \<Rightarrow> (error + unit) \<times> 'b stream" where
  "dunder_enter s = (if closed s then (Inl ValueError, s) else (Inr (), s))"

definition dunder_exit :: "'b adapter \<Rightarrow> 'b stream \<Rightarrow> (error + bool) \<times> 'b stream" where
  "dunder_exit A s =
     (case close A s of
        (Inl err, s') \<Rightarrow> (Inl err, s')
      | (Inr u, s') \<Rightarrow> (Inr False, s'))"

section \<open>SqliteDatabaseStream\<close>

text \<open>
  One record of the table the stream is bound to, with the columns the statements of
  \<open>SqliteDatabaseStream\<close> name. The table is the list of its records in insertion order.
\<close>

record db_row =
  row_id :: int
  content :: string
  row_session_ts :: "nat option"
  row_hostname :: "string option"
  row_pid :: "int option"

text \<open>
  What the subclass owns: the path, whether connection and cursor are open (they are
  opened and closed together), and the committed contents of the table. Every statement
  of the subclass is followed by a commit, so the table is always the committed one.
\<close>

record sqlite =
  db_path :: string
  conn_open :: bool
  tbl :: "db_row list"

definition sqlite_db_connect :: "sqlite stream \<Rightarrow> (error + unit) \<times> sqlite" where
  "sqlite_db_connect s = (Inr (), (backend s)\<lparr>conn_open := True\<rparr>)"

definition sqlite_db_close :: "sqlite stream \<Rightarrow> (error + unit) \<times> sqlite" where
  "sqlite_db_close s = (Inr (), (backend s)\<lparr>conn_open := False\<rparr>)"

text \<open>
  The id of an inserted record is assigned by the store: one more than the largest id
  in the table, and 1 in an empty table (the table declares
  \<open>id INTEGER PRIMARY KEY AUTOINCREMENT\<close>, and no statement of the stream deletes).
\<close>

definition next_id :: "db_row list \<Rightarrow> int" where
  "next_id t = (case map row_id t of [] \<Rightarrow> 1 | i # is \<Rightarrow> fold max is i + 1)"

definition sqlite_write_record :: "sqlite stream \<Rightarrow> string \<Rightarrow> (error + unit) \<times> sqlite" where
  "sqlite_write_record s txt =
     (let b = backend s
      in if \<not> conn_open b then (Inl ProgrammingError, b)
         else (Inr (),
               b\<lparr>tbl := tbl b @
                    [\<lparr>row_id = next_id (tbl b), content = txt,
                      row_session_ts = Some (session_ts s),
                      row_hostname = Some (hostname s),
                      row_pid = Some (pid s)\<rparr>]\<rparr>))"

definition sqlite_flush :: "sqlite stream \<Rightarrow> (error + unit) \<times> sqlite" where
  "sqlite_flush s =
     (let b = backend s
      in if \<not> closed s then (if \<not> conn_open b then (Inl ProgrammingError, b) else (Inr (), b))
         else (Inr (), b))"

text \<open>\<open>SELECT id, content FROM ... WHERE session_ts IS NULL ORDER BY id\<close>, as a function of the table.\<close>

definition select_unconsumed :: "db_row list \<Rightarrow> row list" where
  "select_unconsumed t =
     sort_key fst (map (\<lambda>r. (row_id r, content r)) (filter (\<lambda>r. row_session_ts r = None) t))"

definition sqlite_fetch_unconsumed :: "sqlite stream \<Rightarrow> (error + row list) \<times> sqlite" where
  "sqlite_fetch_unconsumed s =
     (let b = backend s
      in if \<not> conn_open b then (Inl ProgrammingError, b)
         else (Inr (select_unconsumed (tbl b)), b))"

definition sqlite_mark_consumed :: "sqlite stream \<Rightarrow> int \<Rightarrow> (error + unit) \<times> sqlite" where
  "sqlite_mark_consumed s rid =
     (let b = backend s
      in if \<not> conn_open b then (Inl ProgrammingError, b)
         else (Inr (),
               b\<lparr>tbl := map (\<lambda>r. if row_id r = rid
                                 then r\<lparr>row_session_ts := Some (session_ts s),
                                        row_hostname := Some (hostname s),
                                        row_pid := Some (pid s)\<rparr>
                                 else r) (tbl b)\<rparr>))"

definition sqlite_adapter :: "sqlite adapter" where
  "sqlite_adapter =
     \<lparr>db_connect = sqlite_db_connect, db_close = sqlite_db_close,
      write_record = sqlite_write_record, fetch_unconsumed = sqlite_fetch_unconsumed,
      mark_consumed = sqlite_mark_consumed, flush_hook = sqlite_flush\<rparr>"

definition sqlite_init ::
  "process_env \<Rightarrow> string \<Rightarrow> string \<Rightarrow> string \<Rightarrow> db_row list \<Rightarrow> error + sqlite stream" where
  "sqlite_init e path tn m t =
     dunder_init sqlite_adapter e tn m \<lparr>db_path = path, conn_open = False, tbl = t\<rparr>"

section \<open>Calls and their outcomes\<close>

text \<open>
  A caller's view of the stream: one method call, and what comes back from it (the
  returned value, or the exception that escapes). A caller may catch an exception and go
  on calling, so a sequence of calls continues after one that raised.
\<close>

datatype call =
  Write string | Flush | Read int | ReadLine int | ReadLines int | Iter | Next
  | Close | Enter | Exit

datatype reply =
  Nothing | Text string | Lines "string list" | Self | Flag bool | Raised error

definition reply_of :: "('a \<Rightarrow> reply) \<Rightarrow> (error + 'a) \<times> 's \<Rightarrow> reply \<times> 's" where
  "reply_of f r = (case fst r of Inl err \<Rightarrow> Raised err | Inr v \<Rightarrow> f v, snd r)"

fun call_method :: "'b adapter \<Rightarrow> call \<Rightarrow> 'b stream \<Rightarrow> reply \<times> 'b stream" where
  "call_method A (Write t) s = reply_of (\<lambda>u. Nothing) (stream_write A s t)"
| "call_method A Flush s = reply_of (\<lambda>u. Nothing) (flush A s)"
| "call_method A (Read n) s = reply_of Text (read A s n)"
| "call_method A (ReadLine n) s = reply_of Text (readline A s n)"
| "call_method A (ReadLines n) s = reply_of Lines (readlines A s n)"
| "call_method A Iter s = reply_of (\<lambda>u. Self) (dunder_iter s)"
| "call_method A Next s = reply_of Text (dunder_next A s)"
| "call_method A Close s = reply_of (\<lambda>u. Nothing) (close A s)"
| "call_method A Enter s = reply_of (\<lambda>u. Self) (dunder_enter s)"
| "call_method A Exit s = reply_of Flag (dunder_exit A s)"

fun run :: "'b adapter \<Rightarrow> call list \<Rightarrow> 'b stream \<Rightarrow> reply list \<times> 'b stream" where
  "run A [] s = ([], s)"
| "run A (c # cs) s =
     (case call_method A c s of
        (r, s1) \<Rightarrow> (case run A cs s1 of (rs, s2) \<Rightarrow> (r # rs, s2)))"

text \<open>The read-style calls: \<open>read\<close>, \<open>readline\<close>, \<open>readlines\<close> and the iteration protocol.\<close>

fun read_style :: "call \<Rightarrow> bool" where
  "read_style (Read n) = True"
| "read_style (ReadLine n) = True"
| "read_style (ReadLines n) = True"
| "read_style Iter = True"
| "read_style Next = True"
| "read_style c = False"

section \<open>Vocabulary of the properties\<close>

text \<open>
  A record stamped with a session triple, and a table in which the records with the given
  ids carry that stamp while every other record is as before.
\<close>

definition stamp :: "nat \<Rightarrow> string \<Rightarrow> int \<Rightarrow> db_row \<Rightarrow> db_row" where
  "stamp ts h p r = r\<lparr>row_session_ts := Some ts, row_hostname := Some h, row_pid := Some p\<rparr>"

definition stamp_rows :: "nat \<Rightarrow> string \<Rightarrow> int \<Rightarrow> int list \<Rightarrow> db_row list \<Rightarrow> db_row list" where
  "stamp_rows ts h p ids t = map (\<lambda>r. if row_id r \<in> set ids then stamp ts h p r else r) t"

text \<open>The stream after it has taken the rows \<open>seg\<close> off its cursor, leaving \<open>rest\<close>.\<close>

definition consumed :: "row list \<Rightarrow> row list \<Rightarrow> sqlite stream \<Rightarrow> sqlite stream" where
  "consumed seg rest s =
     s\<lparr>row_iterator := Some rest,
       backend := (backend s)\<lparr>tbl := stamp_rows (session_ts s) (hostname s) (pid s)
                                        (map fst seg) (tbl (backend s))\<rparr>\<rparr>"

text \<open>
  What a read-style call hands back when the rows it takes off the cursor are \<open>seg\<close>, and
  which \<open>seg\<close> a call can take: \<open>readline\<close> and \<open>__next__\<close> take at most one row,
  \<open>__iter__\<close> none.
\<close>

fun view :: "call \<Rightarrow> row list \<Rightarrow> reply" where
  "view (Read n) seg = Text (concat (map snd seg))"
| "view (ReadLine n) seg =
     Text (case seg of [] \<Rightarrow> [] | rw # _ \<Rightarrow> if n \<ge> 0 then take (nat n) (snd rw) else snd rw)"
| "view (ReadLines n) seg = Lines (map snd seg)"
| "view Iter seg = Self"
| "view Next seg = (case seg of [] \<Rightarrow> Raised StopIteration | rw # _ \<Rightarrow> Text (snd rw))"
| "view c seg = Nothing"

fun seg_ok :: "call \<Rightarrow> row list \<Rightarrow> bool" where
  "seg_ok (ReadLine n) seg = (length seg \<le> 1)"
| "seg_ok Next seg = (length seg \<le> 1)"
| "seg_ok Iter seg = (seg = [])"
| "seg_ok c seg = True"

text \<open>
  The calls on one stream interleaved with whatever other connections do to the table in
  between (\<open>Store f\<close> replaces the table \<open>t\<close> by \<open>f t\<close>).
\<close>

datatype event = Call call | Store "db_row list \<Rightarrow> db_row list"

fun run_events :: "event list \<Rightarrow> sqlite stream \<Rightarrow> reply list \<times> sqlite stream" where
  "run_events [] s = ([], s)"
| "run_events (Call c # es) s =
     (case call_method sqlite_adapter c s of
        (r, s1) \<Rightarrow> (case run_events es s1 of (rs, s2) \<Rightarrow> (r # rs, s2)))"
| "run_events (Store f # es) s =
     run_events es (s\<lparr>backend := (backend s)\<lparr>tbl := f (tbl (backend s))\<rparr>\<rparr>)"

fun calls_of :: "event list \<Rightarrow> call list" where
  "calls_of [] = []"
| "calls_of (Call c # es) = c # calls_of es"
| "calls_of (Store f # es) = calls_of es"

section \<open>Example streams\<close>

definition example_env :: process_env where
  "example_env = \<lparr>now = 1700000000, gethostname = ''host-a'', getpid = 4242\<rparr>"

definition unconsumed :: "int \<Rightarrow> string \<Rightarrow> db_row" where
  "unconsumed i c =
     \<lparr>row_id = i, content = c, row_session_ts = None, row_hostname = None, row_pid = None\<rparr>"

definition example_table :: "db_row list" where
  "example_table = [unconsumed 1 ''Input1\<newline>'', unconsumed 2 ''Input2\<newline>'']"

definition example_reader :: "sqlite stream" where
  "example_reader =
     \<lparr>table_name = ''stdin_stream'', mode = ''r'', session_ts = 1700000000,
      hostname = ''host-a'', pid = 4242, closed = False,
      row_iterator = Some [(1, ''Input1\<newline>''), (2, ''Input2\<newline>'')],
      backend = \<lparr>db_path = ''test.db'', conn_open = True, tbl = example_table\<rparr>\<rparr>"

definition example_writer :: "sqlite stream" where
  "example_writer =
     \<lparr>table_name = ''stdout_stream'', mode = ''w'', session_ts = 1700000000,
      hostname = ''host-a'', pid = 4242, closed = False, row_iterator = None,
      backend = \<lparr>db_path = ''test.db'', conn_open = True, tbl = []\<rparr>\<rparr>"

text \<open>A subclass whose \<open>_db_close\<close> raises.\<close>

definition raising_close :: "sqlite adapter" where
  "raising_close = sqlite_adapter\<lparr>db_close := \<lambda>s. (Inl ProgrammingError, backend s)\<rparr>"

section \<open>Closed streams and mode checks\<close>

lemma example_reader_init:
  "sqlite_init example_env ''test.db'' ''stdin_stream'' ''r'' example_table = Inr example_reader"
  by (simp add: sqlite_init_def dunder_init_def sqlite_adapter_def sqlite_db_connect_def
      sqlite_fetch_unconsumed_def select_unconsumed_def readable_def example_env_def
      example_table_def unconsumed_def example_reader_def)

lemma closed_raises_ValueError:
  assumes "closed s"
  shows "stream_write A s t = (Inl ValueError, s)"
    and "flush A s = (Inl ValueError, s)"
    and "read A s n = (Inl ValueError, s)"
    and "readline A s n = (Inl ValueError, s)"
    and "readlines A s n = (Inl ValueError, s)"
    and "dunder_next A s = (Inl ValueError, s)"
    and "dunder_enter s = (Inl ValueError, s)"
  using assms
  by (simp_all add: stream_write_def flush_def read_def readline_def readlines_def
      dunder_next_def dunder_enter_def)

lemma close_twice: "close A (snd (close A s)) = (Inr (), snd (close A s))"
  by (simp add: close_def Let_def split: prod.splits)

lemma close_sets_closed: "closed (snd (close A s))"
  by (simp add: close_def Let_def split: prod.splits)

lemma call_method_closed: "closed s \<Longrightarrow> closed (snd (call_method A c s))"
  by (cases c)
    (simp_all add: reply_of_def stream_write_def flush_def read_def readline_def readlines_def
      dunder_iter_def dunder_next_def close_def dunder_enter_def dunder_exit_def readable_def)

lemma run_closed: "closed s \<Longrightarrow> closed (snd (run A cs s))"
proof (induction cs arbitrary: s)
  case Nil
  then show ?case by simp
next
  case (Cons c cs)
  obtain r s1 where c: "call_method A c s = (r, s1)"
    by (cases "call_method A c s")
  with Cons.prems call_method_closed [of s A c] have "closed s1"
    by simp
  from Cons.IH [OF this] c show ?case
    by (auto split: prod.splits)
qed

text \<open>
  C4. After \<open>close()\<close>, \<open>write\<close>, \<open>flush\<close>, \<open>read\<close>, \<open>readline\<close>, \<open>readlines\<close> and \<open>__next__\<close>
  raise the closed-stream \<open>ValueError\<close> (lemma \<open>closed_raises_ValueError\<close>), but obtaining the
  iterator does not: on the reader of the example, closed, \<open>__iter__\<close> raises
  \<open>UnsupportedOperation\<close>, where advancing it raises \<open>ValueError\<close>.
\<close>

theorem iter_after_close_raises_unsupported:
  "sqlite_init example_env ''test.db'' ''stdin_stream'' ''r'' example_table = Inr example_reader \<and>
   fst (run sqlite_adapter [Close, Iter, Next] example_reader) =
     [Nothing, Raised UnsupportedOperation, Raised ValueError]"
  by (simp add: example_reader_init)
    (simp add: example_reader_def sqlite_adapter_def sqlite_db_close_def close_def Let_def
      reply_of_def dunder_iter_def dunder_next_def readable_def)

text \<open>
  C5. On an open stream, \<open>write\<close> on a stream in mode \<open>'r'\<close> raises \<open>UnsupportedOperation\<close>,
  and so does every read-style operation (\<open>read\<close>, \<open>readline\<close>, \<open>readlines\<close>, \<open>__iter__\<close>,
  \<open>__next__\<close>) on a stream in mode \<open>'w'\<close>; the stream is left as it was.
\<close>

theorem mode_mismatch_unsupported:
  assumes "\<not> closed s"
  shows "(mode s = ''r'' \<longrightarrow> stream_write A s t = (Inl UnsupportedOperation, s)) \<and>
         (mode s = ''w'' \<longrightarrow>
            read A s n = (Inl UnsupportedOperation, s) \<and>
            readline A s n = (Inl UnsupportedOperation, s) \<and>
            readlines A s n = (Inl UnsupportedOperation, s) \<and>
            dunder_iter s = (Inl UnsupportedOperation, s) \<and>
            dunder_next A s = (Inl UnsupportedOperation, s))"
  using assms
  by (simp add: stream_write_def read_def readline_def readlines_def dunder_iter_def
      dunder_next_def readable_def writable_def)

theorem mode_mismatch_unsupported_witness:
  "\<not> closed example_reader \<and> mode example_reader = ''r'' \<and>
   stream_write sqlite_adapter example_reader ''x'' = (Inl UnsupportedOperation, example_reader) \<and>
   \<not> closed example_writer \<and> mode example_writer = ''w'' \<and>
   read sqlite_adapter example_writer (-1) = (Inl UnsupportedOperation, example_writer) \<and>
   readline sqlite_adapter example_writer (-1) = (Inl UnsupportedOperation, example_writer) \<and>
   readlines sqlite_adapter example_writer (-1) = (Inl UnsupportedOperation, example_writer) \<and>
   dunder_iter example_writer = (Inl UnsupportedOperation, example_writer) \<and>
   dunder_next sqlite_adapter example_writer = (Inl UnsupportedOperation, example_writer)"
proof -
  have r: "\<not> closed example_reader" "mode example_reader = ''r''"
    by (simp_all add: example_reader_def)
  have w: "\<not> closed example_writer" "mode example_writer = ''w''"
    by (simp_all add: example_writer_def)
  from mode_mismatch_unsupported [OF r(1), of sqlite_adapter "''x''" 0]
       mode_mismatch_unsupported [OF w(1), of sqlite_adapter "''x''" "-1"] r w
  show ?thesis by simp
qed

text \<open>
  C7. \<open>close()\<close> is idempotent: a second call returns at once and leaves the stream exactly
  as the first call left it. The first call on an open stream sets the closed flag and
  then runs \<open>_db_close\<close> on the stream so flagged; its outcome is that hook's.
\<close>

theorem close_idempotent:
  "close A (snd (close A s)) = (Inr (), snd (close A s)) \<and>
   (closed s \<longrightarrow> close A s = (Inr (), s)) \<and>
   (\<not> closed s \<longrightarrow>
      close A s = (fst (db_close A (s\<lparr>closed := True\<rparr>)),
                   s\<lparr>closed := True, backend := snd (db_close A (s\<lparr>closed := True\<rparr>))\<rparr>))"
  by (simp add: close_def Let_def split: prod.splits)

theorem close_idempotent_witness:
  "\<not> closed example_reader \<and>
   close sqlite_adapter (snd (close sqlite_adapter example_reader)) =
     (Inr (), snd (close sqlite_adapter example_reader)) \<and>
   close sqlite_adapter example_reader =
     (Inr (), example_reader\<lparr>closed := True,
        backend := \<lparr>db_path = ''test.db'', conn_open = False, tbl = example_table\<rparr>\<rparr>) \<and>
   closed (snd (close sqlite_adapter example_reader)) \<and>
   close sqlite_adapter (snd (close sqlite_adapter example_reader)) =
     (Inr (), snd (close sqlite_adapter example_reader))"
  using close_idempotent [of sqlite_adapter example_reader]
    close_idempotent [of sqlite_adapter "snd (close sqlite_adapter example_reader)"]
  by (simp add: example_reader_def sqlite_adapter_def sqlite_db_close_def close_def Let_def)

text \<open>
  C10. Closedness is monotone: no sequence of calls on a closed stream opens it again.
  \<open>close()\<close> sets the flag before it runs \<open>_db_close\<close>, so the stream is closed after
  \<open>close()\<close> whatever the hook does, also when the hook raises and \<open>close()\<close> passes the
  exception on, and a further \<open>close()\<close> returns at once.
\<close>

theorem closed_monotone:
  "(closed s \<longrightarrow> closed (snd (run A cs s))) \<and>
   closed (snd (close A s)) \<and>
   (\<not> closed s \<longrightarrow> fst (close A s) = fst (db_close A (s\<lparr>closed := True\<rparr>))) \<and>
   close A (snd (close A s)) = (Inr (), snd (close A s))"
  using run_closed [of s A cs] close_sets_closed [of A s] close_twice [of A s]
  by (simp add: close_def Let_def split: prod.splits)

theorem closed_monotone_witness:
  "closed (snd (close raising_close example_reader)) \<and>
   closed (snd (run raising_close [Read (-1), Write ''x'', Flush, Iter, Next, Enter, Exit, Close]
                  (snd (close raising_close example_reader)))) \<and>
   \<not> closed example_reader \<and>
   fst (close raising_close example_reader) = Inl ProgrammingError \<and>
   close raising_close (snd (close raising_close example_reader)) =
     (Inr (), snd (close raising_close example_reader))"
  using closed_monotone [of "snd (close raising_close example_reader)" raising_close
      "[Read (-1), Write ''x'', Flush, Iter, Next, Enter, Exit, Close]"]
    closed_monotone [of example_reader raising_close "[]"]
  by (simp add: example_reader_def raising_close_def close_def Let_def)

text \<open>
  C9. For a mode other than \<open>'r'\<close> and \<open>'w'\<close> the constructor validates nothing: once
  \<open>_db_connect\<close> has returned, construction succeeds with an open stream, and no
  unconsumed-row fetch is performed (the result is the same whatever \<open>_fetch_unconsumed\<close>
  would do, and \<open>_row_iterator\<close> is never assigned). On that stream \<open>read\<close>, \<open>readline\<close>,
  \<open>readlines\<close>, \<open>__iter__\<close>, \<open>__next__\<close> and \<open>write\<close> raise \<open>UnsupportedOperation\<close>.
\<close>

theorem other_mode_construction:
  assumes "m \<noteq> ''r''" and "m \<noteq> ''w''"
    and "db_connect A \<lparr>table_name = tn, mode = m, session_ts = now e, hostname = gethostname e,
           pid = getpid e, closed = False, row_iterator = None, backend = b0\<rparr> = (Inr (), b1)"
    and "s = \<lparr>table_name = tn, mode = m, session_ts = now e, hostname = gethostname e,
           pid = getpid e, closed = False, row_iterator = None, backend = b1\<rparr>"
  shows "dunder_init A e tn m b0 = Inr s \<and>
         dunder_init (A\<lparr>fetch_unconsumed := f\<rparr>) e tn m b0 = Inr s \<and>
         \<not> closed s \<and> \<not> readable s \<and> \<not> writable s \<and>
         read A s n = (Inl UnsupportedOperation, s) \<and>
         readline A s n = (Inl UnsupportedOperation, s) \<and>
         readlines A s n = (Inl UnsupportedOperation, s) \<and>
         dunder_iter s = (Inl UnsupportedOperation, s) \<and>
         dunder_next A s = (Inl UnsupportedOperation, s) \<and>
         stream_write A s t = (Inl UnsupportedOperation, s)"
  using assms
  by (simp add: dunder_init_def readable_def writable_def read_def readline_def readlines_def
      dunder_iter_def dunder_next_def stream_write_def)

theorem other_mode_construction_witness:
  "''a'' \<noteq> ''r'' \<and> ''a'' \<noteq> ''w'' \<and>
   sqlite_init example_env ''test.db'' ''stdin_stream'' ''a'' example_table =
     Inr (example_reader\<lparr>mode := ''a'', row_iterator := None\<rparr>) \<and>
   dunder_init (sqlite_adapter\<lparr>fetch_unconsumed := \<lambda>s. (Inl ProgrammingError, backend s)\<rparr>)
       example_env ''stdin_stream'' ''a''
       \<lparr>db_path = ''test.db'', conn_open = False, tbl = example_table\<rparr> =
     Inr (example_reader\<lparr>mode := ''a'', row_iterator := None\<rparr>) \<and>
   read sqlite_adapter (example_reader\<lparr>mode := ''a'', row_iterator := None\<rparr>) (-1) =
     (Inl UnsupportedOperation, example_reader\<lparr>mode := ''a'', row_iterator := None\<rparr>) \<and>
   stream_write sqlite_adapter (example_reader\<lparr>mode := ''a'', row_iterator := None\<rparr>) ''x'' =
     (Inl UnsupportedOperation, example_reader\<lparr>mode := ''a'', row_iterator := None\<rparr>)"
proof -
  have c: "db_connect sqlite_adapter
             \<lparr>table_name = ''stdin_stream'', mode = ''a'', session_ts = now example_env,
              hostname = gethostname example_env, pid = getpid example_env, closed = False,
              row_iterator = None,
              backend = \<lparr>db_path = ''test.db'', conn_open = False, tbl = example_table\<rparr>\<rparr> =
           (Inr (), \<lparr>db_path = ''test.db'', conn_open = True, tbl = example_table\<rparr>)"
    by (simp add: sqlite_adapter_def sqlite_db_connect_def)
  have s: "example_reader\<lparr>mode := ''a'', row_iterator := None\<rparr> =
           \<lparr>table_name = ''stdin_stream'', mode = ''a'', session_ts = now example_env,
            hostname = gethostname example_env, pid = getpid example_env, closed = False,
            row_iterator = None,
            backend = \<lparr>db_path = ''test.db'', conn_open = True, tbl = example_table\<rparr>\<rparr>"
    by (simp add: example_reader_def example_env_def)
  have m: "''a'' \<noteq> ''r''" "''a'' \<noteq> ''w''"
    by simp_all
  from other_mode_construction [OF m c s,
      of "\<lambda>s. (Inl ProgrammingError, backend s)" "-1" "''x''"] m
  show ?thesis
    by (simp add: sqlite_init_def)
qed

end
